theory Spec2Isabelle
  imports Main
begin

section \<open>The preferences dialog of the desktop application\<close>

text \<open>
  A shallow embedding of \<^verbatim>\<open>app/src/ui/preferences/preferences.tsx\<close>: the
  \<^verbatim>\<open>Preferences\<close> component, its state, its event handlers, its load
  (\<^verbatim>\<open>componentWillMount\<close>), its two render switches and its save sequence.

  The component's state is a record; \<^verbatim>\<open>setState\<close> with a partial object is a
  record update. Every call the component makes on a collaborator (the global git config,
  the dispatcher, the dismissal callback) is a value of the type \<open>effect\<close>, and a handler
  returns the new state together with the list of the calls it made, in the order it made
  them. The embedding follows the runs in which every awaited call resolves; the component
  has no handler for a rejected one.
\<close>

subsection \<open>Data\<close>

text \<open>
  \<^verbatim>\<open>ExternalEditor\<close>, \<^verbatim>\<open>Shell\<close>, \<^verbatim>\<open>UncommittedChangesStrategyKind\<close> and
  \<^verbatim>\<open>ApplicationTheme\<close> are declared in other modules; the component only stores
  them and hands them on, so they are the type parameters \<open>'e\<close>, \<open>'s\<close>, \<open>'k\<close> and \<open>'t\<close>.
  A value of type \<^verbatim>\<open>T | null\<close> is a \<open>T option\<close>.
\<close>

text \<open>
  Modelled from the spec: the enumeration \<^verbatim>\<open>PreferencesTab\<close> of
  \<^verbatim>\<open>models/preferences\<close>, a closed enumeration of the five values Accounts,
  Integrations, Git, Appearance and Advanced. At run time a member is a number
  (\<^verbatim>\<open>onTabClicked\<close> stores the number the tab bar reports), numbered in the order in
  which \<^verbatim>\<open>render\<close> lists the tab headers.
\<close>

type_synonym PreferencesTab = int

definition PreferencesTab_Accounts :: PreferencesTab where
  "PreferencesTab_Accounts = 0"

definition PreferencesTab_Integrations :: PreferencesTab where
  "PreferencesTab_Integrations = 1"

definition PreferencesTab_Git :: PreferencesTab where
  "PreferencesTab_Git = 2"

definition PreferencesTab_Appearance :: PreferencesTab where
  "PreferencesTab_Appearance = 3"

definition PreferencesTab_Advanced :: PreferencesTab where
  "PreferencesTab_Advanced = 4"

lemmas PreferencesTab_defs =
  PreferencesTab_Accounts_def PreferencesTab_Integrations_def PreferencesTab_Git_def
  PreferencesTab_Appearance_def PreferencesTab_Advanced_def

text \<open>
  Modelled from the spec: the interface \<^verbatim>\<open>IMergeTool\<close> of \<^verbatim>\<open>lib/git/config\<close>,
  a name and an optional command string.
\<close>

record IMergeTool =
  name :: string
  command :: "string option"

text \<open>
  Modelled from the spec: \<^verbatim>\<open>Account\<close> of \<^verbatim>\<open>models/account\<close> and the result type
  of \<^verbatim>\<open>lookupPreferredEmail\<close>; the component reads \<^verbatim>\<open>login\<close> of the first and
  \<^verbatim>\<open>email\<close> of the second.
\<close>

record IAPIEmail =
  email :: string
  verified :: bool

record Account =
  login :: string
  emails :: "IAPIEmail list"

text \<open>The elements of the lists that editor and shell discovery return.\<close>

record 'e IFoundEditor =
  editor :: 'e

record 's IFoundShell =
  shell :: 's

text \<open>
  The props, without \<^verbatim>\<open>dispatcher\<close> and \<^verbatim>\<open>onDismissed\<close>: a call on either is an
  \<open>effect\<close>.
\<close>

record ('e, 's, 'k, 't) IPreferencesProps =
  dotComAccount :: "Account option"
  enterpriseAccount :: "Account option"
  optOutOfUsageTracking :: bool
  initialSelectedTab :: "PreferencesTab option"
  confirmRepositoryRemoval :: bool
  confirmDiscardChanges :: bool
  confirmForcePush :: bool
  uncommittedChangesStrategyKind :: 'k
  selectedExternalEditor :: "'e option"
  selectedShell :: 's
  selectedTheme :: 't
  automaticallySwitchTheme :: bool

record ('e, 's, 'k) IPreferencesState =
  selectedIndex :: PreferencesTab
  committerName :: string
  committerEmail :: string
  disallowedCharactersMessage :: "string option"
  optOutOfUsageTracking :: bool
  confirmRepositoryRemoval :: bool
  confirmDiscardChanges :: bool
  confirmForcePush :: bool
  automaticallySwitchTheme :: bool
  uncommittedChangesStrategyKind :: 'k
  availableEditors :: "'e list"
  selectedExternalEditor :: "'e option"
  availableShells :: "'s list"
  selectedShell :: 's
  mergeTool :: "IMergeTool option"

text \<open>
  The calls on the collaborators: \<^verbatim>\<open>setGlobalConfigValue\<close>, the dispatcher's
  operations and the \<^verbatim>\<open>onDismissed\<close> callback.
\<close>

datatype ('e, 's, 'k, 't) effect =
    SetGlobalConfigValue string string
  | SetStatsOptOut bool bool
  | SetConfirmRepoRemovalSetting bool
  | SetConfirmForcePushSetting bool
  | SetExternalEditor 'e
  | SetShell 's
  | SetConfirmDiscardChangesSetting bool
  | SetUncommittedChangesStrategyKindSetting 'k
  | OnDismissed
  | ShowDotComSignInDialog
  | ShowEnterpriseSignInDialog
  | RemoveAccount Account
  | SetSelectedTheme 't
  | OnAutomaticallySwitchThemeChanged bool

text \<open>What \<^verbatim>\<open>componentWillMount\<close> reads: the global git config and the discovery calls.\<close>

record ('e, 's) services =
  getGlobalConfigValue :: "string \<Rightarrow> string option"
  getAvailableEditors :: "'e IFoundEditor list"
  getAvailableShells :: "'s IFoundShell list"
  getMergeTool :: "IMergeTool option"

subsection \<open>Truthiness\<close>

text \<open>
  A \<^verbatim>\<open>string | null\<close> is truthy when it is a non-empty string; a number is truthy
  when it is not zero.
\<close>

definition truthy :: "string option \<Rightarrow> bool" where
  "truthy v = (case v of None \<Rightarrow> False | Some str \<Rightarrow> str \<noteq> [])"

text \<open>\<^verbatim>\<open>v || ''\<close> on a \<^verbatim>\<open>string | null\<close>.\<close>

definition orEmpty :: "string option \<Rightarrow> string" where
  "orEmpty v = (case v of None \<Rightarrow> [] | Some str \<Rightarrow> if str \<noteq> [] then str else [])"

subsection \<open>Construction\<close>

definition constructor ::
  "'k \<Rightarrow> ('e, 's, 'k, 't) IPreferencesProps \<Rightarrow> ('e, 's, 'k) IPreferencesState" where
  "constructor uncommittedChangesStrategyKindDefault props =
     \<lparr> selectedIndex =
         (case initialSelectedTab props of
            None \<Rightarrow> PreferencesTab_Accounts
          | Some tab \<Rightarrow> if tab = 0 then PreferencesTab_Accounts else tab),
       committerName = [],
       committerEmail = [],
       disallowedCharactersMessage = None,
       optOutOfUsageTracking = False,
       confirmRepositoryRemoval = False,
       confirmDiscardChanges = False,
       confirmForcePush = False,
       automaticallySwitchTheme = False,
       uncommittedChangesStrategyKind = uncommittedChangesStrategyKindDefault,
       availableEditors = [],
       selectedExternalEditor = IPreferencesProps.selectedExternalEditor props,
       availableShells = [],
       selectedShell = IPreferencesProps.selectedShell props,
       mergeTool = None \<rparr>"

subsection \<open>Load\<close>

text \<open>
  \<^verbatim>\<open>componentWillMount\<close>. \<^verbatim>\<open>lookupPreferredEmail\<close> lives in \<^verbatim>\<open>lib/email\<close>
  and is a parameter here. \<^verbatim>\<open>a || b\<close> on two accounts is the first when there is
  one, a record being truthy. The final \<^verbatim>\<open>setState\<close> leaves the fields it does not
  name as they are.
\<close>

definition componentWillMount ::
  "(Account \<Rightarrow> IAPIEmail option) \<Rightarrow> ('e, 's) services \<Rightarrow>
   ('e, 's, 'k, 't) IPreferencesProps \<Rightarrow> ('e, 's, 'k) IPreferencesState \<Rightarrow>
   ('e, 's, 'k) IPreferencesState" where
  "componentWillMount lookupPreferredEmail env props state =
     (let committerName0 = getGlobalConfigValue env ''user.name'';
          committerEmail0 = getGlobalConfigValue env ''user.email'';
          (committerName1, committerEmail1) =
            (if \<not> truthy committerName0 \<or> \<not> truthy committerEmail0 then
               (let account =
                      (case dotComAccount props of
                         Some a \<Rightarrow> Some a
                       | None \<Rightarrow> enterpriseAccount props)
                in case account of
                     Some a \<Rightarrow>
                       (if \<not> truthy committerName0 then Some (login a) else committerName0,
                        if \<not> truthy committerEmail0 then
                          (case lookupPreferredEmail a of
                             Some found \<Rightarrow> Some (email found)
                           | None \<Rightarrow> committerEmail0)
                        else committerEmail0)
                   | None \<Rightarrow> (committerName0, committerEmail0))
             else (committerName0, committerEmail0));
          committerName2 = orEmpty committerName1;
          committerEmail2 = orEmpty committerEmail1;
          editors = getAvailableEditors env;
          shells = getAvailableShells env;
          mergeTool0 = getMergeTool env
      in state
           \<lparr> committerName := committerName2,
             committerEmail := committerEmail2,
             optOutOfUsageTracking := IPreferencesProps.optOutOfUsageTracking props,
             confirmRepositoryRemoval := IPreferencesProps.confirmRepositoryRemoval props,
             confirmDiscardChanges := IPreferencesProps.confirmDiscardChanges props,
             confirmForcePush := IPreferencesProps.confirmForcePush props,
             uncommittedChangesStrategyKind :=
               IPreferencesProps.uncommittedChangesStrategyKind props,
             availableShells := map shell shells,
             availableEditors := map editor editors,
             mergeTool := mergeTool0 \<rparr>)"

subsection \<open>Event handlers\<close>

text \<open>
  A handler maps the state to the new state and the calls it made. The handlers that only
  call \<^verbatim>\<open>setState\<close> make none.
\<close>

type_synonym ('e, 's, 'k, 't) outcome =
  "('e, 's, 'k) IPreferencesState \<times> ('e, 's, 'k, 't) effect list"

definition onDotComSignIn ::
  "('e, 's, 'k) IPreferencesState \<Rightarrow> ('e, 's, 'k, 't) outcome" where
  "onDotComSignIn state = (state, [OnDismissed, ShowDotComSignInDialog])"

definition onEnterpriseSignIn ::
  "('e, 's, 'k) IPreferencesState \<Rightarrow> ('e, 's, 'k, 't) outcome" where
  "onEnterpriseSignIn state = (state, [OnDismissed, ShowEnterpriseSignInDialog])"

definition onLogout ::
  "Account \<Rightarrow> ('e, 's, 'k) IPreferencesState \<Rightarrow> ('e, 's, 'k, 't) outcome" where
  "onLogout account state = (state, [RemoveAccount account])"

definition onOptOutofReportingChanged ::
  "bool \<Rightarrow> ('e, 's, 'k) IPreferencesState \<Rightarrow> ('e, 's, 'k, 't) outcome" where
  "onOptOutofReportingChanged v state = (state\<lparr>optOutOfUsageTracking := v\<rparr>, [])"

definition onConfirmRepositoryRemovalChanged ::
  "bool \<Rightarrow> ('e, 's, 'k) IPreferencesState \<Rightarrow> ('e, 's, 'k, 't) outcome" where
  "onConfirmRepositoryRemovalChanged v state = (state\<lparr>confirmRepositoryRemoval := v\<rparr>, [])"

definition onConfirmDiscardChangesChanged ::
  "bool \<Rightarrow> ('e, 's, 'k) IPreferencesState \<Rightarrow> ('e, 's, 'k, 't) outcome" where
  "onConfirmDiscardChangesChanged v state = (state\<lparr>confirmDiscardChanges := v\<rparr>, [])"

definition onConfirmForcePushChanged ::
  "bool \<Rightarrow> ('e, 's, 'k) IPreferencesState \<Rightarrow> ('e, 's, 'k, 't) outcome" where
  "onConfirmForcePushChanged v state = (state\<lparr>confirmForcePush := v\<rparr>, [])"

definition onUncommittedChangesStrategyKindChanged ::
  "'k \<Rightarrow> ('e, 's, 'k) IPreferencesState \<Rightarrow> ('e, 's, 'k, 't) outcome" where
  "onUncommittedChangesStrategyKindChanged v state =
     (state\<lparr>uncommittedChangesStrategyKind := v\<rparr>, [])"

text \<open>
  Modelled from the spec: \<^verbatim>\<open>gitAuthorNameIsValid\<close> of
  \<^verbatim>\<open>ui/preferences/identifier-rules\<close>. A name composed entirely of disallowed
  characters, or consisting only of whitespace, is invalid; any other non-empty name is
  valid. The two character classes are parameters: the spec names them and does not list
  them. The spec does not speak about the empty name; it is valid here, as the empty name
  of a fresh state comes with no message.
\<close>

definition gitAuthorNameIsValid ::
  "(char \<Rightarrow> bool) \<Rightarrow> (char \<Rightarrow> bool) \<Rightarrow> string \<Rightarrow> bool" where
  "gitAuthorNameIsValid disallowed whitespace str =
     (str = [] \<or> \<not> (list_all disallowed str \<or> list_all whitespace str))"

definition onCommitterNameChanged ::
  "(char \<Rightarrow> bool) \<Rightarrow> (char \<Rightarrow> bool) \<Rightarrow> string \<Rightarrow>
   ('e, 's, 'k) IPreferencesState \<Rightarrow> ('e, 's, 'k, 't) outcome" where
  "onCommitterNameChanged disallowed whitespace committerName' state =
     (state
        \<lparr> committerName := committerName',
          disallowedCharactersMessage :=
            (if gitAuthorNameIsValid disallowed whitespace committerName' then None
             else Some ''Name is invalid, it consists only of disallowed characters.'') \<rparr>,
      [])"

definition onCommitterEmailChanged ::
  "string \<Rightarrow> ('e, 's, 'k) IPreferencesState \<Rightarrow> ('e, 's, 'k, 't) outcome" where
  "onCommitterEmailChanged committerEmail' state =
     (state\<lparr>committerEmail := committerEmail'\<rparr>, [])"

definition onSelectedEditorChanged ::
  "'e \<Rightarrow> ('e, 's, 'k) IPreferencesState \<Rightarrow> ('e, 's, 'k, 't) outcome" where
  "onSelectedEditorChanged ed state = (state\<lparr>selectedExternalEditor := Some ed\<rparr>, [])"

definition onSelectedShellChanged ::
  "'s \<Rightarrow> ('e, 's, 'k) IPreferencesState \<Rightarrow> ('e, 's, 'k, 't) outcome" where
  "onSelectedShellChanged sh state = (state\<lparr>selectedShell := sh\<rparr>, [])"

definition onSelectedThemeChanged ::
  "'t \<Rightarrow> ('e, 's, 'k) IPreferencesState \<Rightarrow> ('e, 's, 'k, 't) outcome" where
  "onSelectedThemeChanged theme state = (state, [SetSelectedTheme theme])"

definition onAutomaticallySwitchThemeChanged ::
  "bool \<Rightarrow> ('e, 's, 'k) IPreferencesState \<Rightarrow> ('e, 's, 'k, 't) outcome" where
  "onAutomaticallySwitchThemeChanged v state =
     (state, [OnAutomaticallySwitchThemeChanged v])"

definition onTabClicked ::
  "int \<Rightarrow> ('e, 's, 'k) IPreferencesState \<Rightarrow> ('e, 's, 'k, 't) outcome" where
  "onTabClicked index state = (state\<lparr>selectedIndex := index\<rparr>, [])"

text \<open>
  \<^verbatim>\<open>this.state.mergeTool && this.state.mergeTool.command\<close> is \<^verbatim>\<open>null\<close> when there
  is no merge tool and the tool's command otherwise.
\<close>

definition onMergeToolNameChanged ::
  "string \<Rightarrow> ('e, 's, 'k) IPreferencesState \<Rightarrow> ('e, 's, 'k, 't) outcome" where
  "onMergeToolNameChanged name' state =
     (let mergeTool' =
            \<lparr> name = name',
              command = (case mergeTool state of None \<Rightarrow> None | Some mt \<Rightarrow> command mt) \<rparr>
      in (state\<lparr>mergeTool := Some mergeTool'\<rparr>, []))"

definition onMergeToolCommandChanged ::
  "string \<Rightarrow> ('e, 's, 'k) IPreferencesState \<Rightarrow> ('e, 's, 'k, 't) outcome" where
  "onMergeToolCommandChanged command' state =
     (let mergeTool' =
            \<lparr> name = (case mergeTool state of None \<Rightarrow> [] | Some mt \<Rightarrow> name mt),
              command = Some command' \<rparr>
      in (state\<lparr>mergeTool := Some mergeTool'\<rparr>, []))"

subsection \<open>Rendering\<close>

text \<open>
  \<^verbatim>\<open>assertNever(index, `Unknown tab index: ${index}`)\<close> throws; the error carries the
  index. A render function returns the error (\<open>Inl\<close>) or what it renders (\<open>Inr\<close>).
\<close>

datatype fatal_error = AssertNever int

text \<open>The sub-views, with the data props they receive (the callback props are the handlers).\<close>

datatype ('e, 's, 'k, 't) tab_view =
    Accounts "Account option" "Account option"
  | Integrations "'e list" "'e option" "'s list" 's "IMergeTool option"
  | Git string string
  | Appearance 't bool
  | Advanced bool bool bool bool 'k

record OkCancelButtonGroup =
  okButtonText :: string
  okButtonDisabled :: bool

record ('e, 's, 'k, 't) Dialog =
  dialogId :: string
  title :: string
  dialogError :: "string option"
  tabBarSelectedIndex :: PreferencesTab
  tabBarTabs :: "string list"
  activeTab :: "('e, 's, 'k, 't) tab_view"
  dialogFooter :: "OkCancelButtonGroup option"

definition renderDisallowedCharactersError ::
  "('e, 's, 'k) IPreferencesState \<Rightarrow> string option" where
  "renderDisallowedCharactersError state =
     (let message = disallowedCharactersMessage state
      in if message \<noteq> None then message else None)"

definition renderActiveTab ::
  "('e, 's, 'k, 't) IPreferencesProps \<Rightarrow> ('e, 's, 'k) IPreferencesState \<Rightarrow>
   fatal_error + ('e, 's, 'k, 't) tab_view" where
  "renderActiveTab props state =
     (let index = selectedIndex state
      in if index = PreferencesTab_Accounts then
           Inr (Accounts (dotComAccount props) (enterpriseAccount props))
         else if index = PreferencesTab_Integrations then
           Inr (Integrations (availableEditors state) (selectedExternalEditor state)
                  (availableShells state) (selectedShell state) (mergeTool state))
         else if index = PreferencesTab_Git then
           Inr (Git (committerName state) (committerEmail state))
         else if index = PreferencesTab_Appearance then
           Inr (Appearance (selectedTheme props)
                  (IPreferencesProps.automaticallySwitchTheme props))
         else if index = PreferencesTab_Advanced then
           Inr (Advanced (optOutOfUsageTracking state) (confirmRepositoryRemoval state)
                  (confirmDiscardChanges state) (confirmForcePush state)
                  (uncommittedChangesStrategyKind state))
         else Inl (AssertNever index))"

definition renderFooter ::
  "('e, 's, 'k) IPreferencesState \<Rightarrow> fatal_error + OkCancelButtonGroup option" where
  "renderFooter state =
     (let hasDisabledError = (disallowedCharactersMessage state \<noteq> None);
          index = selectedIndex state
      in if index = PreferencesTab_Accounts \<or> index = PreferencesTab_Appearance then
           Inr None
         else if index = PreferencesTab_Integrations \<or> index = PreferencesTab_Advanced
                 \<or> index = PreferencesTab_Git then
           Inr (Some \<lparr> okButtonText = ''Save'', okButtonDisabled = hasDisabledError \<rparr>)
         else Inl (AssertNever index))"

text \<open>
  \<^verbatim>\<open>render\<close>: the children are evaluated in the order they are written, so a throw of
  \<^verbatim>\<open>renderActiveTab\<close> comes before \<^verbatim>\<open>renderFooter\<close> is called. The global
  \<^verbatim>\<open>__DARWIN__\<close> is a parameter.
\<close>

definition render ::
  "bool \<Rightarrow> ('e, 's, 'k, 't) IPreferencesProps \<Rightarrow> ('e, 's, 'k) IPreferencesState \<Rightarrow>
   fatal_error + ('e, 's, 'k, 't) Dialog" where
  "render DARWIN props state =
     (let err = renderDisallowedCharactersError state
      in case renderActiveTab props state of
           Inl e \<Rightarrow> Inl e
         | Inr view \<Rightarrow>
             (case renderFooter state of
                Inl e \<Rightarrow> Inl e
              | Inr footer \<Rightarrow>
                  Inr \<lparr> dialogId = ''preferences'',
                        title = (if DARWIN then ''Preferences'' else ''Options''),
                        dialogError = err,
                        tabBarSelectedIndex = selectedIndex state,
                        tabBarTabs =
                          [''Accounts'', ''Integrations'', ''Git'', ''Appearance'', ''Advanced''],
                        activeTab = view,
                        dialogFooter = footer \<rparr>))"

subsection \<open>Save\<close>

text \<open>
  \<^verbatim>\<open>onSave\<close> awaits one call after the other; \<open>await\<close> appends the call to the calls
  made so far. No call's result is bound to a name or tested.
\<close>

definition await ::
  "('e, 's, 'k, 't) effect list \<Rightarrow> ('e, 's, 'k, 't) effect \<Rightarrow> ('e, 's, 'k, 't) effect list" where
  "await calls call = calls @ [call]"

definition onSave ::
  "('e, 's, 'k) IPreferencesState \<Rightarrow> ('e, 's, 'k, 't) outcome" where
  "onSave state =
     (let c0 = [];
          c1 = await c0 (SetGlobalConfigValue ''user.name'' (committerName state));
          c2 = await c1 (SetGlobalConfigValue ''user.email'' (committerEmail state));
          c3 = await c2 (SetStatsOptOut (optOutOfUsageTracking state) False);
          c4 = await c3 (SetConfirmRepoRemovalSetting (confirmRepositoryRemoval state));
          c5 = await c4 (SetConfirmForcePushSetting (confirmForcePush state));
          c6 = (case selectedExternalEditor state of
                  Some ed \<Rightarrow> await c5 (SetExternalEditor ed)
                | None \<Rightarrow> c5);
          c7 = await c6 (SetShell (selectedShell state));
          c8 = await c7 (SetConfirmDiscardChangesSetting (confirmDiscardChanges state));
          c9 = await c8
                 (SetUncommittedChangesStrategyKindSetting
                    (uncommittedChangesStrategyKind state));
          c10 = (case mergeTool state of
                   None \<Rightarrow> c9
                 | Some mt \<Rightarrow>
                     if name mt \<noteq> [] then
                       (let c = await c9 (SetGlobalConfigValue ''merge.tool'' (name mt))
                        in case command mt of
                             None \<Rightarrow> c
                           | Some cmd \<Rightarrow>
                               if cmd \<noteq> [] then
                                 await c
                                   (SetGlobalConfigValue
                                      (''mergetool.'' @ name mt @ ''.cmd'') cmd)
                               else c)
                     else c9)
      in (state, await c10 OnDismissed))"

subsection \<open>Events\<close>

text \<open>
  What the user can do on the dialog, one event for each handler, and the handler each event
  runs. \<open>run\<close> runs a sequence of events and keeps the calls made.
\<close>

datatype ('e, 's, 'k, 't) event =
    DotComSignIn
  | EnterpriseSignIn
  | Logout Account
  | OptOutofReportingChanged bool
  | ConfirmRepositoryRemovalChanged bool
  | ConfirmDiscardChangesChanged bool
  | ConfirmForcePushChanged bool
  | UncommittedChangesStrategyKindChanged 'k
  | CommitterNameChanged string
  | CommitterEmailChanged string
  | SelectedEditorChanged 'e
  | SelectedShellChanged 's
  | SelectedThemeChanged 't
  | AutomaticallySwitchThemeChanged bool
  | Save
  | TabClicked int
  | MergeToolNameChanged string
  | MergeToolCommandChanged string

fun handle ::
  "(char \<Rightarrow> bool) \<Rightarrow> (char \<Rightarrow> bool) \<Rightarrow> ('e, 's, 'k, 't) event \<Rightarrow>
   ('e, 's, 'k) IPreferencesState \<Rightarrow> ('e, 's, 'k, 't) outcome" where
  "handle d w DotComSignIn = onDotComSignIn"
| "handle d w EnterpriseSignIn = onEnterpriseSignIn"
| "handle d w (Logout a) = onLogout a"
| "handle d w (OptOutofReportingChanged v) = onOptOutofReportingChanged v"
| "handle d w (ConfirmRepositoryRemovalChanged v) = onConfirmRepositoryRemovalChanged v"
| "handle d w (ConfirmDiscardChangesChanged v) = onConfirmDiscardChangesChanged v"
| "handle d w (ConfirmForcePushChanged v) = onConfirmForcePushChanged v"
| "handle d w (UncommittedChangesStrategyKindChanged v) =
     onUncommittedChangesStrategyKindChanged v"
| "handle d w (CommitterNameChanged v) = onCommitterNameChanged d w v"
| "handle d w (CommitterEmailChanged v) = onCommitterEmailChanged v"
| "handle d w (SelectedEditorChanged v) = onSelectedEditorChanged v"
| "handle d w (SelectedShellChanged v) = onSelectedShellChanged v"
| "handle d w (SelectedThemeChanged v) = onSelectedThemeChanged v"
| "handle d w (AutomaticallySwitchThemeChanged v) = onAutomaticallySwitchThemeChanged v"
| "handle d w Save = onSave"
| "handle d w (TabClicked i) = onTabClicked i"
| "handle d w (MergeToolNameChanged v) = onMergeToolNameChanged v"
| "handle d w (MergeToolCommandChanged v) = onMergeToolCommandChanged v"

fun run ::
  "(char \<Rightarrow> bool) \<Rightarrow> (char \<Rightarrow> bool) \<Rightarrow> ('e, 's, 'k, 't) event list \<Rightarrow>
   ('e, 's, 'k, 't) outcome \<Rightarrow> ('e, 's, 'k, 't) outcome" where
  "run d w [] out = out"
| "run d w (ev # evs) (state, calls) =
     (let (state', calls') = handle d w ev state
      in run d w evs (state', calls @ calls'))"

text \<open>The events by which the user edits one of the selections.\<close>

fun editsSelection :: "('e, 's, 'k, 't) event \<Rightarrow> bool" where
  "editsSelection (OptOutofReportingChanged v) = True"
| "editsSelection (ConfirmRepositoryRemovalChanged v) = True"
| "editsSelection (ConfirmDiscardChangesChanged v) = True"
| "editsSelection (ConfirmForcePushChanged v) = True"
| "editsSelection (UncommittedChangesStrategyKindChanged v) = True"
| "editsSelection (SelectedEditorChanged v) = True"
| "editsSelection (SelectedShellChanged v) = True"
| "editsSelection ev = False"

subsection \<open>Example inputs\<close>

text \<open>
  A host that passes every flag switched on, with one signed-in account, and the state the
  dialog is constructed with for it.
\<close>

definition example_props :: "(string, string, nat, string) IPreferencesProps" where
  "example_props =
     \<lparr> dotComAccount =
         Some \<lparr> login = ''octocat'',
                emails = [\<lparr> email = ''octocat@example.com'', verified = True \<rparr>] \<rparr>,
       enterpriseAccount = None,
       IPreferencesProps.optOutOfUsageTracking = True,
       initialSelectedTab = None,
       IPreferencesProps.confirmRepositoryRemoval = True,
       IPreferencesProps.confirmDiscardChanges = True,
       IPreferencesProps.confirmForcePush = True,
       IPreferencesProps.uncommittedChangesStrategyKind = 1,
       IPreferencesProps.selectedExternalEditor = Some ''Atom'',
       IPreferencesProps.selectedShell = ''bash'',
       selectedTheme = ''dark'',
       IPreferencesProps.automaticallySwitchTheme = False \<rparr>"

definition example_state :: "(string, string, nat) IPreferencesState" where
  "example_state = constructor 0 example_props"

text \<open>
  A machine with an empty global git config, one editor and one shell, and no merge tool
  configured.
\<close>

definition example_services :: "(string, string) services" where
  "example_services =
     \<lparr> getGlobalConfigValue = (\<lambda>key. None),
       getAvailableEditors = [\<lparr> editor = ''Atom'' \<rparr>],
       getAvailableShells = [\<lparr> shell = ''bash'' \<rparr>],
       getMergeTool = None \<rparr>"

subsection \<open>The order the spec gives to the calls of a save\<close>

text \<open>
  The spec orders the calls of a save in groups: the config writes (committer name and
  email), then the behaviour flags (telemetry opt-out, confirm-repository-removal,
  confirm-force-push, confirm-discard-changes), then the tools (editor, shell, strategy,
  merge tool), then the dismissal. \<open>specGroup\<close> is the group of a call, following these
  words; the calls a save never makes are in the last group.
\<close>

fun specGroup :: "('e, 's, 'k, 't) effect \<Rightarrow> nat" where
  "specGroup (SetGlobalConfigValue key v) =
     (if key = ''user.name'' \<or> key = ''user.email'' then 0 else 2)"
| "specGroup (SetStatsOptOut v b) = 1"
| "specGroup (SetConfirmRepoRemovalSetting v) = 1"
| "specGroup (SetConfirmForcePushSetting v) = 1"
| "specGroup (SetConfirmDiscardChangesSetting v) = 1"
| "specGroup (SetExternalEditor v) = 2"
| "specGroup (SetShell v) = 2"
| "specGroup (SetUncommittedChangesStrategyKindSetting v) = 2"
| "specGroup call = 3"

subsection \<open>The selections and the props\<close>

text \<open>
  The spec's words: the editable selections (external editor, shell, confirm flags,
  telemetry opt-out, uncommitted-changes strategy) equal the values passed in from the
  hosting application's props.
\<close>

definition selectionsEqualProps ::
  "('e, 's, 'k, 't) IPreferencesProps \<Rightarrow> ('e, 's, 'k) IPreferencesState \<Rightarrow> bool" where
  "selectionsEqualProps props state =
     (selectedExternalEditor state = IPreferencesProps.selectedExternalEditor props
      \<and> selectedShell state = IPreferencesProps.selectedShell props
      \<and> confirmRepositoryRemoval state = IPreferencesProps.confirmRepositoryRemoval props
      \<and> confirmDiscardChanges state = IPreferencesProps.confirmDiscardChanges props
      \<and> confirmForcePush state = IPreferencesProps.confirmForcePush props
      \<and> optOutOfUsageTracking state = IPreferencesProps.optOutOfUsageTracking props
      \<and> uncommittedChangesStrategyKind state
          = IPreferencesProps.uncommittedChangesStrategyKind props)"

section \<open>Properties\<close>

subsection \<open>The calls of a save\<close>

text \<open>The calls \<^verbatim>\<open>onSave\<close> makes, written out as one list.\<close>

lemma onSave_calls:
  "snd (onSave state) =
     [SetGlobalConfigValue ''user.name'' (committerName state),
      SetGlobalConfigValue ''user.email'' (committerEmail state),
      SetStatsOptOut (optOutOfUsageTracking state) False,
      SetConfirmRepoRemovalSetting (confirmRepositoryRemoval state),
      SetConfirmForcePushSetting (confirmForcePush state)]
     @ (case selectedExternalEditor state of Some ed \<Rightarrow> [SetExternalEditor ed] | None \<Rightarrow> [])
     @ [SetShell (selectedShell state),
        SetConfirmDiscardChangesSetting (confirmDiscardChanges state),
        SetUncommittedChangesStrategyKindSetting (uncommittedChangesStrategyKind state)]
     @ (case mergeTool state of
          None \<Rightarrow> []
        | Some mt \<Rightarrow>
            if name mt \<noteq> [] then
              SetGlobalConfigValue ''merge.tool'' (name mt)
              # (case command mt of
                   None \<Rightarrow> []
                 | Some cmd \<Rightarrow>
                     if cmd \<noteq> [] then
                       [SetGlobalConfigValue (''mergetool.'' @ name mt @ ''.cmd'') cmd]
                     else [])
            else [])
     @ [OnDismissed]"
  by (simp add: onSave_def await_def Let_def split: option.splits)

subsection \<open>Switching tabs\<close>

text \<open>
  C8: for every tab index and every state, the tab-click handler changes the field
  \<open>selectedIndex\<close> and nothing else: every other field of the state is as before, and
  the handler makes no call on a collaborator. It tests nothing, so no state (one with a
  validity message, for instance) blocks the switch.
\<close>

theorem onTabClicked_only_selectedIndex:
  "onTabClicked index state = (state\<lparr>selectedIndex := index\<rparr>, [])
   \<and> snd (onTabClicked index state) = []
   \<and> selectedIndex (fst (onTabClicked index state)) = index
   \<and> committerName (fst (onTabClicked index state)) = committerName state
   \<and> committerEmail (fst (onTabClicked index state)) = committerEmail state
   \<and> disallowedCharactersMessage (fst (onTabClicked index state)) =
       disallowedCharactersMessage state
   \<and> optOutOfUsageTracking (fst (onTabClicked index state)) = optOutOfUsageTracking state
   \<and> confirmRepositoryRemoval (fst (onTabClicked index state)) =
       confirmRepositoryRemoval state
   \<and> confirmDiscardChanges (fst (onTabClicked index state)) = confirmDiscardChanges state
   \<and> confirmForcePush (fst (onTabClicked index state)) = confirmForcePush state
   \<and> automaticallySwitchTheme (fst (onTabClicked index state)) =
       automaticallySwitchTheme state
   \<and> uncommittedChangesStrategyKind (fst (onTabClicked index state)) =
       uncommittedChangesStrategyKind state
   \<and> availableEditors (fst (onTabClicked index state)) = availableEditors state
   \<and> selectedExternalEditor (fst (onTabClicked index state)) = selectedExternalEditor state
   \<and> availableShells (fst (onTabClicked index state)) = availableShells state
   \<and> selectedShell (fst (onTabClicked index state)) = selectedShell state
   \<and> mergeTool (fst (onTabClicked index state)) = mergeTool state"
  by (simp add: onTabClicked_def)

theorem onTabClicked_only_selectedIndex_witness:
  "fst (onTabClicked 2 (example_state\<lparr>disallowedCharactersMessage := Some ''invalid''\<rparr>)
        :: (string, string, nat, string) outcome) =
     example_state\<lparr>disallowedCharactersMessage := Some ''invalid'', selectedIndex := 2\<rparr>
   \<and> snd (onTabClicked 2 (example_state\<lparr>disallowedCharactersMessage := Some ''invalid''\<rparr>)
        :: (string, string, nat, string) outcome) = []"
  using onTabClicked_only_selectedIndex
          [of 2 "example_state\<lparr>disallowedCharactersMessage := Some ''invalid''\<rparr>"]
  by (simp add: onTabClicked_def)

subsection \<open>The footer\<close>

text \<open>
  C2: on the tabs Accounts and Appearance no footer is rendered; on the tabs Integrations,
  Git and Advanced a footer is rendered, its confirm button reads Save, and the button is
  disabled if and only if the validity message of the state is not null.
\<close>

theorem renderFooter_by_tab:
  "(selectedIndex state = PreferencesTab_Accounts
      \<or> selectedIndex state = PreferencesTab_Appearance
    \<longrightarrow> renderFooter state = Inr None)
   \<and> (selectedIndex state = PreferencesTab_Integrations
        \<or> selectedIndex state = PreferencesTab_Git
        \<or> selectedIndex state = PreferencesTab_Advanced
      \<longrightarrow> (\<exists>footer. renderFooter state = Inr (Some footer)
                \<and> okButtonText footer = ''Save''
                \<and> (okButtonDisabled footer \<longleftrightarrow> disallowedCharactersMessage state \<noteq> None)))"
  by (auto simp: renderFooter_def PreferencesTab_defs)

theorem renderFooter_by_tab_witness:
  "renderFooter (example_state\<lparr>selectedIndex := PreferencesTab_Appearance\<rparr>) = Inr None
   \<and> (\<exists>footer. renderFooter (example_state\<lparr>selectedIndex := PreferencesTab_Git,
                   disallowedCharactersMessage := Some ''invalid''\<rparr>) = Inr (Some footer)
         \<and> okButtonText footer = ''Save'' \<and> okButtonDisabled footer)
   \<and> (\<exists>footer. renderFooter (example_state\<lparr>selectedIndex := PreferencesTab_Advanced\<rparr>)
                  = Inr (Some footer)
         \<and> okButtonText footer = ''Save'' \<and> \<not> okButtonDisabled footer)"
  using renderFooter_by_tab [of "example_state\<lparr>selectedIndex := PreferencesTab_Appearance\<rparr>"]
        renderFooter_by_tab [of "example_state\<lparr>selectedIndex := PreferencesTab_Git,
                   disallowedCharactersMessage := Some ''invalid''\<rparr>"]
        renderFooter_by_tab [of "example_state\<lparr>selectedIndex := PreferencesTab_Advanced\<rparr>"]
  by (simp add: example_state_def constructor_def)

subsection \<open>The exhaustive match\<close>

text \<open>
  C7: for every value of the active tab outside the enumeration of the five tabs, rendering
  reaches the failure branch of the match (\<^verbatim>\<open>assertNever\<close>, a fatal error), in
  \<^verbatim>\<open>renderActiveTab\<close>, in \<^verbatim>\<open>renderFooter\<close> and so in \<^verbatim>\<open>render\<close>; for every
  value inside the enumeration the failure branch is not reached and each of the three
  returns what it renders.
\<close>

theorem assertNever_iff_outside_enumeration:
  "(renderActiveTab props state = Inl (AssertNever (selectedIndex state))
      \<longleftrightarrow> selectedIndex state \<notin> {PreferencesTab_Accounts, PreferencesTab_Integrations,
            PreferencesTab_Git, PreferencesTab_Appearance, PreferencesTab_Advanced})
   \<and> (renderFooter state = Inl (AssertNever (selectedIndex state))
      \<longleftrightarrow> selectedIndex state \<notin> {PreferencesTab_Accounts, PreferencesTab_Integrations,
            PreferencesTab_Git, PreferencesTab_Appearance, PreferencesTab_Advanced})
   \<and> (render DARWIN props state = Inl (AssertNever (selectedIndex state))
      \<longleftrightarrow> selectedIndex state \<notin> {PreferencesTab_Accounts, PreferencesTab_Integrations,
            PreferencesTab_Git, PreferencesTab_Appearance, PreferencesTab_Advanced})
   \<and> ((\<exists>view. renderActiveTab props state = Inr view)
      \<longleftrightarrow> selectedIndex state \<in> {PreferencesTab_Accounts, PreferencesTab_Integrations,
            PreferencesTab_Git, PreferencesTab_Appearance, PreferencesTab_Advanced})
   \<and> ((\<exists>footer. renderFooter state = Inr footer)
      \<longleftrightarrow> selectedIndex state \<in> {PreferencesTab_Accounts, PreferencesTab_Integrations,
            PreferencesTab_Git, PreferencesTab_Appearance, PreferencesTab_Advanced})
   \<and> ((\<exists>dialog. render DARWIN props state = Inr dialog)
      \<longleftrightarrow> selectedIndex state \<in> {PreferencesTab_Accounts, PreferencesTab_Integrations,
            PreferencesTab_Git, PreferencesTab_Appearance, PreferencesTab_Advanced})"
  by (simp add: render_def renderActiveTab_def renderFooter_def PreferencesTab_defs Let_def)

theorem assertNever_iff_outside_enumeration_witness:
  "renderActiveTab example_props (example_state\<lparr>selectedIndex := 5\<rparr>) = Inl (AssertNever 5)
   \<and> renderFooter (example_state\<lparr>selectedIndex := 5\<rparr>) = Inl (AssertNever 5)
   \<and> render False example_props (example_state\<lparr>selectedIndex := - 1\<rparr>)
       = Inl (AssertNever (- 1))
   \<and> (\<exists>dialog. render False example_props
         (example_state\<lparr>selectedIndex := PreferencesTab_Git\<rparr>) = Inr dialog)"
  using assertNever_iff_outside_enumeration
          [of example_props "example_state\<lparr>selectedIndex := 5\<rparr>" False]
        assertNever_iff_outside_enumeration
          [of example_props "example_state\<lparr>selectedIndex := - 1\<rparr>" False]
        assertNever_iff_outside_enumeration
          [of example_props "example_state\<lparr>selectedIndex := PreferencesTab_Git\<rparr>" False]
  by (simp add: PreferencesTab_defs)

subsection \<open>The merge tool keys of a save\<close>

text \<open>The key of a merge tool's command is none of the three fixed keys.\<close>

lemma mergetool_key_neq [simp]:
  "''mergetool.'' @ n @ ''.cmd'' \<noteq> ''merge.tool''"
  "''mergetool.'' @ n @ ''.cmd'' \<noteq> ''user.name''"
  "''mergetool.'' @ n @ ''.cmd'' \<noteq> ''user.email''"
  "''merge.tool'' \<noteq> ''mergetool.'' @ n @ ''.cmd''"
  "''user.name'' \<noteq> ''mergetool.'' @ n @ ''.cmd''"
  "''user.email'' \<noteq> ''mergetool.'' @ n @ ''.cmd''"
  by simp_all

text \<open>
  C1: for every save, the key \<^verbatim>\<open>merge.tool\<close> is written if and only if the state has a
  merge tool with a non-empty name (and the value written is that name); a key
  \<^verbatim>\<open>mergetool.<name>.cmd\<close> is written if and only if the state has a merge tool whose
  name and command are both non-empty (and then it is the key of that name, with that
  command). With no merge tool or an empty name, neither key is written.
\<close>

theorem onSave_merge_tool_keys:
  "(SetGlobalConfigValue ''merge.tool'' v \<in> set (snd (onSave state :: ('e, 's, 'k, 't) outcome))
      \<longleftrightarrow> (\<exists>mt. mergeTool state = Some mt \<and> name mt \<noteq> [] \<and> v = name mt))
   \<and> (SetGlobalConfigValue (''mergetool.'' @ n @ ''.cmd'') v \<in> set (snd (onSave state :: ('e, 's, 'k, 't) outcome))
      \<longleftrightarrow> (\<exists>mt. mergeTool state = Some mt \<and> name mt \<noteq> [] \<and> n = name mt
                 \<and> command mt = Some v \<and> v \<noteq> []))
   \<and> ((\<exists>v'. SetGlobalConfigValue ''merge.tool'' v' \<in> set (snd (onSave state :: ('e, 's, 'k, 't) outcome)))
      \<longleftrightarrow> (\<exists>mt. mergeTool state = Some mt \<and> name mt \<noteq> []))
   \<and> ((\<exists>n' v'. SetGlobalConfigValue (''mergetool.'' @ n' @ ''.cmd'') v'
                 \<in> set (snd (onSave state :: ('e, 's, 'k, 't) outcome)))
      \<longleftrightarrow> (\<exists>mt cmd. mergeTool state = Some mt \<and> name mt \<noteq> []
                 \<and> command mt = Some cmd \<and> cmd \<noteq> []))"
proof (cases "mergeTool state")
  case None
  then show ?thesis by (simp add: onSave_calls)
next
  case (Some mt)
  then show ?thesis by (cases "command mt") (auto simp: onSave_calls)
qed

theorem onSave_merge_tool_keys_witness:
  "SetGlobalConfigValue ''merge.tool'' ''kdiff3''
     \<in> set (snd (onSave (example_state
          \<lparr>mergeTool := Some \<lparr>name = ''kdiff3'', command = Some ''kdiff3 --merge''\<rparr>\<rparr>)
          :: (string, string, nat, string) outcome))
   \<and> SetGlobalConfigValue ''mergetool.kdiff3.cmd'' ''kdiff3 --merge''
     \<in> set (snd (onSave (example_state
          \<lparr>mergeTool := Some \<lparr>name = ''kdiff3'', command = Some ''kdiff3 --merge''\<rparr>\<rparr>)
          :: (string, string, nat, string) outcome))
   \<and> SetGlobalConfigValue ''merge.tool'' ''kdiff3''
     \<in> set (snd (onSave (example_state
          \<lparr>mergeTool := Some \<lparr>name = ''kdiff3'', command = Some []\<rparr>\<rparr>)
          :: (string, string, nat, string) outcome))
   \<and> \<not> (\<exists>n' v'. SetGlobalConfigValue (''mergetool.'' @ n' @ ''.cmd'') v'
     \<in> set (snd (onSave (example_state
          \<lparr>mergeTool := Some \<lparr>name = ''kdiff3'', command = Some []\<rparr>\<rparr>)
          :: (string, string, nat, string) outcome)))
   \<and> \<not> (\<exists>v'. SetGlobalConfigValue ''merge.tool'' v'
     \<in> set (snd (onSave (example_state
          \<lparr>mergeTool := Some \<lparr>name = [], command = Some ''kdiff3 --merge''\<rparr>\<rparr>)
          :: (string, string, nat, string) outcome)))
   \<and> \<not> (\<exists>n' v'. SetGlobalConfigValue (''mergetool.'' @ n' @ ''.cmd'') v'
     \<in> set (snd (onSave (example_state
          \<lparr>mergeTool := Some \<lparr>name = [], command = Some ''kdiff3 --merge''\<rparr>\<rparr>)
          :: (string, string, nat, string) outcome)))"
  using onSave_merge_tool_keys
          [where state = "example_state
             \<lparr>mergeTool := Some \<lparr>name = ''kdiff3'', command = Some ''kdiff3 --merge''\<rparr>\<rparr>"
             and v = "''kdiff3''" and n = "''kdiff3''" and 't = string]
        onSave_merge_tool_keys
          [where state = "example_state
             \<lparr>mergeTool := Some \<lparr>name = ''kdiff3'', command = Some ''kdiff3 --merge''\<rparr>\<rparr>"
             and v = "''kdiff3 --merge''" and n = "''kdiff3''" and 't = string]
        onSave_merge_tool_keys
          [where state = "example_state
             \<lparr>mergeTool := Some \<lparr>name = ''kdiff3'', command = Some []\<rparr>\<rparr>"
             and v = "''kdiff3''" and n = "''kdiff3''" and 't = string]
        onSave_merge_tool_keys
          [where state = "example_state
             \<lparr>mergeTool := Some \<lparr>name = [], command = Some ''kdiff3 --merge''\<rparr>\<rparr>"
             and v = "''kdiff3''" and n = "''kdiff3''" and 't = string]
  by simp

text \<open>
  C10: when the user edits the merge tool's command while the state has no merge tool, the
  new state has a merge tool whose name is the empty string; a save of that state writes
  neither \<^verbatim>\<open>merge.tool\<close> nor any key \<^verbatim>\<open>mergetool.<name>.cmd\<close> and makes the very
  calls a save of the state before the edit makes, so the command is dropped without a
  sign; an edit of the name afterwards keeps the command entered before.
\<close>

theorem command_without_name_is_discarded:
  "mergeTool state = None \<Longrightarrow>
     mergeTool (fst (onMergeToolCommandChanged cmd state :: ('e, 's, 'k, 't) outcome))
       = Some \<lparr>name = [], command = Some cmd\<rparr>
   \<and> \<not> (\<exists>v. SetGlobalConfigValue ''merge.tool'' v
           \<in> set (snd (onSave (fst (onMergeToolCommandChanged cmd state
                                      :: ('e, 's, 'k, 't) outcome))
                         :: ('e, 's, 'k, 't) outcome)))
   \<and> \<not> (\<exists>n v. SetGlobalConfigValue (''mergetool.'' @ n @ ''.cmd'') v
           \<in> set (snd (onSave (fst (onMergeToolCommandChanged cmd state
                                      :: ('e, 's, 'k, 't) outcome))
                         :: ('e, 's, 'k, 't) outcome)))
   \<and> snd (onSave (fst (onMergeToolCommandChanged cmd state :: ('e, 's, 'k, 't) outcome))
            :: ('e, 's, 'k, 't) outcome)
       = snd (onSave state)
   \<and> mergeTool (fst (onMergeToolNameChanged n'
                       (fst (onMergeToolCommandChanged cmd state :: ('e, 's, 'k, 't) outcome))
                     :: ('e, 's, 'k, 't) outcome))
       = Some \<lparr>name = n', command = Some cmd\<rparr>"
  by (simp add: onMergeToolCommandChanged_def onMergeToolNameChanged_def onSave_calls)

theorem command_without_name_is_discarded_witness:
  "mergeTool (fst (onMergeToolCommandChanged ''kdiff3 --merge'' example_state
                     :: (string, string, nat, string) outcome))
       = Some \<lparr>name = [], command = Some ''kdiff3 --merge''\<rparr>
   \<and> snd (onSave (fst (onMergeToolCommandChanged ''kdiff3 --merge'' example_state
                         :: (string, string, nat, string) outcome))
            :: (string, string, nat, string) outcome)
       = snd (onSave example_state)
   \<and> mergeTool (fst (onMergeToolNameChanged ''kdiff3''
                       (fst (onMergeToolCommandChanged ''kdiff3 --merge'' example_state
                               :: (string, string, nat, string) outcome))
                     :: (string, string, nat, string) outcome))
       = Some \<lparr>name = ''kdiff3'', command = Some ''kdiff3 --merge''\<rparr>"
proof -
  have none: "mergeTool example_state = None"
    by (simp add: example_state_def constructor_def)
  show ?thesis
    using command_without_name_is_discarded
            [OF none, where cmd = "''kdiff3 --merge''" and n' = "''kdiff3''" and 't = string]
    by simp
qed

subsection \<open>Save and validity\<close>

text \<open>
  C9: \<^verbatim>\<open>onSave\<close> checks no validity. In every state whose validity message is not
  null, a save still writes the committer name of the state to \<^verbatim>\<open>user.name\<close> first
  and calls the dismissal callback last, and it makes the calls it makes for the same state
  without the message; the guard is the confirm button of the footer, which is disabled in
  such a state on the tabs that render one.
\<close>

theorem onSave_checks_no_validity:
  "disallowedCharactersMessage state \<noteq> None \<Longrightarrow>
     hd (snd (onSave state :: ('e, 's, 'k, 't) outcome))
       = SetGlobalConfigValue ''user.name'' (committerName state)
   \<and> last (snd (onSave state :: ('e, 's, 'k, 't) outcome)) = OnDismissed
   \<and> snd (onSave state :: ('e, 's, 'k, 't) outcome)
       = snd (onSave (state\<lparr>disallowedCharactersMessage := None\<rparr>))
   \<and> (selectedIndex state = PreferencesTab_Integrations
        \<or> selectedIndex state = PreferencesTab_Git
        \<or> selectedIndex state = PreferencesTab_Advanced
      \<longrightarrow> renderFooter state = Inr (Some \<lparr>okButtonText = ''Save'', okButtonDisabled = True\<rparr>))"
  by (auto simp: onSave_calls renderFooter_def PreferencesTab_defs)

theorem onSave_checks_no_validity_witness:
  "hd (snd (onSave (example_state
         \<lparr>committerName := ''<>'',
           disallowedCharactersMessage :=
             Some ''Name is invalid, it consists only of disallowed characters.'',
           selectedIndex := PreferencesTab_Git\<rparr>) :: (string, string, nat, string) outcome))
     = SetGlobalConfigValue ''user.name'' ''<>''
   \<and> last (snd (onSave (example_state
         \<lparr>committerName := ''<>'',
           disallowedCharactersMessage :=
             Some ''Name is invalid, it consists only of disallowed characters.'',
           selectedIndex := PreferencesTab_Git\<rparr>) :: (string, string, nat, string) outcome))
     = OnDismissed
   \<and> renderFooter (example_state
         \<lparr>committerName := ''<>'',
           disallowedCharactersMessage :=
             Some ''Name is invalid, it consists only of disallowed characters.'',
           selectedIndex := PreferencesTab_Git\<rparr>)
     = Inr (Some \<lparr>okButtonText = ''Save'', okButtonDisabled = True\<rparr>)"
  using onSave_checks_no_validity
          [where state = "example_state
             \<lparr>committerName := ''<>'',
               disallowedCharactersMessage :=
                 Some ''Name is invalid, it consists only of disallowed characters.'',
               selectedIndex := PreferencesTab_Git\<rparr>" and 't = string]
  by (simp add: onSave_calls)

subsection \<open>The committer name\<close>

text \<open>
  C3: for every non-empty string entered as committer name, the name-change handler stores
  the name and computes the validity message from that name alone, in the same update and
  with no call on a collaborator: a name composed entirely of disallowed characters, or
  consisting only of whitespace, gives the fixed message \<^verbatim>\<open>Name is invalid, it consists
  only of disallowed characters.\<close>; any other non-empty name gives the null message.
\<close>

theorem onCommitterNameChanged_validity:
  "str \<noteq> [] \<Longrightarrow>
     committerName (fst (onCommitterNameChanged disallowed whitespace str state
                          :: ('e, 's, 'k, 't) outcome)) = str
   \<and> disallowedCharactersMessage
         (fst (onCommitterNameChanged disallowed whitespace str state
                 :: ('e, 's, 'k, 't) outcome))
       = (if list_all disallowed str \<or> list_all whitespace str
          then Some ''Name is invalid, it consists only of disallowed characters.''
          else None)
   \<and> snd (onCommitterNameChanged disallowed whitespace str state
            :: ('e, 's, 'k, 't) outcome) = []"
  by (simp add: onCommitterNameChanged_def gitAuthorNameIsValid_def)

theorem onCommitterNameChanged_validity_witness:
  "disallowedCharactersMessage
     (fst (onCommitterNameChanged (\<lambda>c. c \<in> set ''<>.,:;'') (\<lambda>c. c = CHR '' '') ''<>''
             example_state :: (string, string, nat, string) outcome))
     = Some ''Name is invalid, it consists only of disallowed characters.''
   \<and> disallowedCharactersMessage
     (fst (onCommitterNameChanged (\<lambda>c. c \<in> set ''<>.,:;'') (\<lambda>c. c = CHR '' '') ''   ''
             example_state :: (string, string, nat, string) outcome))
     = Some ''Name is invalid, it consists only of disallowed characters.''
   \<and> disallowedCharactersMessage
     (fst (onCommitterNameChanged (\<lambda>c. c \<in> set ''<>.,:;'') (\<lambda>c. c = CHR '' '') ''Jane Doe''
             (example_state\<lparr>disallowedCharactersMessage := Some ''stale''\<rparr>)
           :: (string, string, nat, string) outcome))
     = None
   \<and> committerName
     (fst (onCommitterNameChanged (\<lambda>c. c \<in> set ''<>.,:;'') (\<lambda>c. c = CHR '' '') ''Jane Doe''
             (example_state\<lparr>disallowedCharactersMessage := Some ''stale''\<rparr>)
           :: (string, string, nat, string) outcome))
     = ''Jane Doe''"
proof -
  have a: "''<>'' \<noteq> []" and b: "''   '' \<noteq> []" and c: "''Jane Doe'' \<noteq> []"
    by simp_all
  show ?thesis
    using onCommitterNameChanged_validity
            [OF a, where disallowed = "\<lambda>c. c \<in> set ''<>.,:;''"
               and whitespace = "\<lambda>c. c = CHR '' ''" and state = example_state
               and 't = string]
          onCommitterNameChanged_validity
            [OF b, where disallowed = "\<lambda>c. c \<in> set ''<>.,:;''"
               and whitespace = "\<lambda>c. c = CHR '' ''" and state = example_state
               and 't = string]
          onCommitterNameChanged_validity
            [OF c, where disallowed = "\<lambda>c. c \<in> set ''<>.,:;''"
               and whitespace = "\<lambda>c. c = CHR '' ''"
               and state = "example_state\<lparr>disallowedCharactersMessage := Some ''stale''\<rparr>"
               and 't = string]
    by simp
qed

subsection \<open>Load\<close>

text \<open>The committer name and email that the load commits to the state.\<close>

lemma componentWillMount_committerName:
  "committerName (componentWillMount lookupPreferredEmail env props state) =
     (if truthy (getGlobalConfigValue env ''user.name'')
      then orEmpty (getGlobalConfigValue env ''user.name'')
      else case dotComAccount props of
             Some a \<Rightarrow> login a
           | None \<Rightarrow> (case enterpriseAccount props of Some a \<Rightarrow> login a | None \<Rightarrow> []))"
  by (simp add: componentWillMount_def truthy_def orEmpty_def Let_def
           split: option.splits)

lemma componentWillMount_committerEmail:
  "committerEmail (componentWillMount lookupPreferredEmail env props state) =
     (if truthy (getGlobalConfigValue env ''user.email'')
      then orEmpty (getGlobalConfigValue env ''user.email'')
      else case (case dotComAccount props of Some a \<Rightarrow> Some a
                 | None \<Rightarrow> enterpriseAccount props) of
             Some a \<Rightarrow> (case lookupPreferredEmail a of Some found \<Rightarrow> email found | None \<Rightarrow> [])
           | None \<Rightarrow> [])"
  by (simp add: componentWillMount_def truthy_def orEmpty_def Let_def
           split: option.splits)

text \<open>
  C4: during load, when a signed-in account exists (the dot-com account when there is one,
  the enterprise account otherwise), a committer name that the config store returns empty
  or not at all is seeded from the account's login, and a committer email that the config
  store returns empty or not at all is seeded from the email that the preferred-email
  lookup finds for the account; when the lookup finds nothing the email ends as the empty
  string. A non-empty config value is kept. The load has no failing branch: it returns a
  state in every case.
\<close>

theorem componentWillMount_seeds_identity:
  "dotComAccount props = Some a
     \<or> (dotComAccount props = None \<and> enterpriseAccount props = Some a) \<Longrightarrow>
     (\<not> truthy (getGlobalConfigValue env ''user.name'')
        \<longrightarrow> committerName (componentWillMount lookupPreferredEmail env props state) = login a)
   \<and> (\<not> truthy (getGlobalConfigValue env ''user.email'')
        \<longrightarrow> committerEmail (componentWillMount lookupPreferredEmail env props state)
             = (case lookupPreferredEmail a of
                  Some found \<Rightarrow> email found
                | None \<Rightarrow> []))
   \<and> (getGlobalConfigValue env ''user.name'' = Some v \<and> v \<noteq> []
        \<longrightarrow> committerName (componentWillMount lookupPreferredEmail env props state) = v)
   \<and> (getGlobalConfigValue env ''user.email'' = Some v' \<and> v' \<noteq> []
        \<longrightarrow> committerEmail (componentWillMount lookupPreferredEmail env props state) = v')"
  by (auto simp: componentWillMount_committerName componentWillMount_committerEmail
                 truthy_def orEmpty_def)

theorem componentWillMount_seeds_identity_witness:
  "committerName
     (componentWillMount (\<lambda>a. case emails a of [] \<Rightarrow> None | e # es \<Rightarrow> Some e)
        example_services example_props example_state) = ''octocat''
   \<and> committerEmail
     (componentWillMount (\<lambda>a. case emails a of [] \<Rightarrow> None | e # es \<Rightarrow> Some e)
        example_services example_props example_state) = ''octocat@example.com''
   \<and> committerEmail
     (componentWillMount (\<lambda>a. None) example_services example_props example_state) = []
   \<and> committerName
     (componentWillMount (\<lambda>a. None)
        (example_services\<lparr>getGlobalConfigValue :=
           (\<lambda>key. if key = ''user.name'' then Some ''Jane Doe'' else None)\<rparr>)
        (example_props\<lparr>dotComAccount := None,
           enterpriseAccount := Some \<lparr>login = ''jdoe'', emails = []\<rparr>\<rparr>)
        example_state) = ''Jane Doe''"
proof -
  have acct: "dotComAccount example_props
        = Some \<lparr>login = ''octocat'',
                emails = [\<lparr>email = ''octocat@example.com'', verified = True\<rparr>]\<rparr>
      \<or> (dotComAccount example_props = None
          \<and> enterpriseAccount example_props
              = Some \<lparr>login = ''octocat'',
                      emails = [\<lparr>email = ''octocat@example.com'', verified = True\<rparr>]\<rparr>)"
    by (simp add: example_props_def)
  have ent: "dotComAccount (example_props\<lparr>dotComAccount := None,
           enterpriseAccount := Some \<lparr>login = ''jdoe'', emails = []\<rparr>\<rparr>)
        = Some \<lparr>login = ''jdoe'', emails = []\<rparr>
      \<or> (dotComAccount (example_props\<lparr>dotComAccount := None,
           enterpriseAccount := Some \<lparr>login = ''jdoe'', emails = []\<rparr>\<rparr>) = None
          \<and> enterpriseAccount (example_props\<lparr>dotComAccount := None,
           enterpriseAccount := Some \<lparr>login = ''jdoe'', emails = []\<rparr>\<rparr>)
              = Some \<lparr>login = ''jdoe'', emails = []\<rparr>)"
    by simp
  show ?thesis
    using componentWillMount_seeds_identity
            [OF acct, where env = example_services and state = example_state
               and lookupPreferredEmail = "\<lambda>a. case emails a of [] \<Rightarrow> None | e # es \<Rightarrow> Some e"]
          componentWillMount_seeds_identity
            [OF acct, where env = example_services and state = example_state
               and lookupPreferredEmail = "\<lambda>a. None"]
          componentWillMount_seeds_identity
            [OF ent, where env = "example_services\<lparr>getGlobalConfigValue :=
                 (\<lambda>key. if key = ''user.name'' then Some ''Jane Doe'' else None)\<rparr>"
               and state = example_state and lookupPreferredEmail = "\<lambda>a. None"
               and v = "''Jane Doe''"]
    by (simp add: example_services_def truthy_def)
qed

subsection \<open>The order of a save\<close>

text \<open>
  C5 (as amended): a save makes its calls one after the other in this order: committer
  name, committer email, telemetry opt-out, confirm-repository-removal, confirm-force-push,
  the external editor when one is selected, the shell, confirm-discard-changes, the
  uncommitted-changes strategy, \<^verbatim>\<open>merge.tool\<close> and the merge tool's command when they
  are present, and the dismissal callback last; no call depends on the result of another,
  and the state is left as it is. The config writes come first and the dismissal last, but
  confirm-discard-changes is written after the editor and the shell, not with the other
  flags before them.
\<close>

theorem onSave_order:
  "(onSave state :: ('e, 's, 'k, 't) outcome) =
     (state,
      [SetGlobalConfigValue ''user.name'' (committerName state),
       SetGlobalConfigValue ''user.email'' (committerEmail state),
       SetStatsOptOut (optOutOfUsageTracking state) False,
       SetConfirmRepoRemovalSetting (confirmRepositoryRemoval state),
       SetConfirmForcePushSetting (confirmForcePush state)]
      @ (case selectedExternalEditor state of Some ed \<Rightarrow> [SetExternalEditor ed] | None \<Rightarrow> [])
      @ [SetShell (selectedShell state),
         SetConfirmDiscardChangesSetting (confirmDiscardChanges state),
         SetUncommittedChangesStrategyKindSetting (uncommittedChangesStrategyKind state)]
      @ (case mergeTool state of
           None \<Rightarrow> []
         | Some mt \<Rightarrow>
             if name mt \<noteq> [] then
               SetGlobalConfigValue ''merge.tool'' (name mt)
               # (case command mt of
                    None \<Rightarrow> []
                  | Some cmd \<Rightarrow>
                      if cmd \<noteq> [] then
                        [SetGlobalConfigValue (''mergetool.'' @ name mt @ ''.cmd'') cmd]
                      else [])
             else [])
      @ [OnDismissed])"
  by (simp add: onSave_def await_def Let_def split: option.splits)

theorem onSave_order_witness:
  "onSave (example_state
       \<lparr>committerName := ''Jane Doe'', committerEmail := ''jane@example.com'',
         confirmDiscardChanges := True,
         mergeTool := Some \<lparr>name = ''kdiff3'', command = Some ''kdiff3 --merge''\<rparr>\<rparr>)
     = (example_state
       \<lparr>committerName := ''Jane Doe'', committerEmail := ''jane@example.com'',
         confirmDiscardChanges := True,
         mergeTool := Some \<lparr>name = ''kdiff3'', command = Some ''kdiff3 --merge''\<rparr>\<rparr>,
        [SetGlobalConfigValue ''user.name'' ''Jane Doe'',
         SetGlobalConfigValue ''user.email'' ''jane@example.com'',
         SetStatsOptOut False False,
         SetConfirmRepoRemovalSetting False,
         SetConfirmForcePushSetting False,
         SetExternalEditor ''Atom'',
         SetShell ''bash'',
         SetConfirmDiscardChangesSetting True,
         SetUncommittedChangesStrategyKindSetting 0,
         SetGlobalConfigValue ''merge.tool'' ''kdiff3'',
         SetGlobalConfigValue ''mergetool.kdiff3.cmd'' ''kdiff3 --merge'',
         OnDismissed :: (string, string, nat, string) effect])"
  using onSave_order
          [where state = "example_state
             \<lparr>committerName := ''Jane Doe'', committerEmail := ''jane@example.com'',
               confirmDiscardChanges := True,
               mergeTool := Some \<lparr>name = ''kdiff3'', command = Some ''kdiff3 --merge''\<rparr>\<rparr>"
             and 't = string]
  by (simp add: example_state_def constructor_def example_props_def)

text \<open>
  C5 as the spec states it (every flag write before every tool write) fails: for the
  example state the groups of the calls, in the order of the calls, are
  \<open>0, 0, 1, 1, 1, 2, 2, 1, 2, 3\<close>.
\<close>

theorem save_order_counterexample:
  "\<not> sorted (map specGroup
                (snd (onSave example_state :: (string, string, nat, string) outcome)))"
  by (simp add: onSave_calls example_state_def constructor_def example_props_def)

subsection \<open>The selections and the props\<close>

text \<open>
  An event that is no edit of a selection leaves the seven selections as they are, and so
  does a sequence of such events; the load sets the five that the constructor does not
  take from the props.
\<close>

lemma onSave_state: "fst (onSave state) = state"
  by (simp add: onSave_def Let_def)

lemma handle_keeps_selections:
  assumes "\<not> editsSelection ev"
  shows "selectedExternalEditor (fst (handle d w ev state)) = selectedExternalEditor state"
    and "selectedShell (fst (handle d w ev state)) = selectedShell state"
    and "confirmRepositoryRemoval (fst (handle d w ev state)) = confirmRepositoryRemoval state"
    and "confirmDiscardChanges (fst (handle d w ev state)) = confirmDiscardChanges state"
    and "confirmForcePush (fst (handle d w ev state)) = confirmForcePush state"
    and "optOutOfUsageTracking (fst (handle d w ev state)) = optOutOfUsageTracking state"
    and "uncommittedChangesStrategyKind (fst (handle d w ev state))
           = uncommittedChangesStrategyKind state"
  using assms
  by (cases ev;
      simp add: onSave_state onDotComSignIn_def onEnterpriseSignIn_def onLogout_def
        onCommitterNameChanged_def onCommitterEmailChanged_def onSelectedThemeChanged_def
        onAutomaticallySwitchThemeChanged_def onTabClicked_def onMergeToolNameChanged_def
        onMergeToolCommandChanged_def)+

lemma run_keeps_selections:
  assumes "list_all (\<lambda>ev. \<not> editsSelection ev) evs"
  shows "selectedExternalEditor (fst (run d w evs (state, calls)))
           = selectedExternalEditor state
       \<and> selectedShell (fst (run d w evs (state, calls))) = selectedShell state
       \<and> confirmRepositoryRemoval (fst (run d w evs (state, calls)))
           = confirmRepositoryRemoval state
       \<and> confirmDiscardChanges (fst (run d w evs (state, calls)))
           = confirmDiscardChanges state
       \<and> confirmForcePush (fst (run d w evs (state, calls))) = confirmForcePush state
       \<and> optOutOfUsageTracking (fst (run d w evs (state, calls)))
           = optOutOfUsageTracking state
       \<and> uncommittedChangesStrategyKind (fst (run d w evs (state, calls)))
           = uncommittedChangesStrategyKind state"
  using assms
proof (induction evs arbitrary: state calls)
  case Nil
  then show ?case by simp
next
  case (Cons ev evs)
  obtain state' calls' where h: "handle d w ev state = (state', calls')"
    by (cases "handle d w ev state")
  from Cons.prems have ne: "\<not> editsSelection ev"
    and rest: "list_all (\<lambda>ev. \<not> editsSelection ev) evs"
    by simp_all
  have st: "state' = fst (handle d w ev state)"
    by (simp add: h)
  show ?case
    using Cons.IH [OF rest, of state' "calls @ calls'"] handle_keeps_selections [OF ne, of d w state]
    by (simp add: h st [symmetric])
qed

lemma componentWillMount_selections:
  "confirmRepositoryRemoval (componentWillMount l env props state)
     = IPreferencesProps.confirmRepositoryRemoval props"
  "confirmDiscardChanges (componentWillMount l env props state)
     = IPreferencesProps.confirmDiscardChanges props"
  "confirmForcePush (componentWillMount l env props state)
     = IPreferencesProps.confirmForcePush props"
  "optOutOfUsageTracking (componentWillMount l env props state)
     = IPreferencesProps.optOutOfUsageTracking props"
  "uncommittedChangesStrategyKind (componentWillMount l env props state)
     = IPreferencesProps.uncommittedChangesStrategyKind props"
  "selectedExternalEditor (componentWillMount l env props state)
     = selectedExternalEditor state"
  "selectedShell (componentWillMount l env props state) = selectedShell state"
  by (simp_all add: componentWillMount_def Let_def split: prod.splits)

text \<open>
  C6 (as amended): as long as the user edits none of them, the external editor and the
  shell of the state equal the values of the props from the construction of the dialog on;
  the confirm flags, the telemetry opt-out and the uncommitted-changes strategy equal the
  values of the props from the completion of the load on, and between the construction and
  the completion of the load the flags and the opt-out are false and the strategy is the
  enumeration's default. Here \<open>before\<close> are the events handled before the load completes
  and \<open>after\<close> those handled after it.
\<close>

theorem selections_follow_props:
  assumes "list_all (\<lambda>ev. \<not> editsSelection ev) before"
    and "list_all (\<lambda>ev. \<not> editsSelection ev) after"
  shows
    "selectedExternalEditor (fst (run d w before (constructor dflt props, [])))
       = IPreferencesProps.selectedExternalEditor props
     \<and> selectedShell (fst (run d w before (constructor dflt props, [])))
       = IPreferencesProps.selectedShell props
     \<and> confirmRepositoryRemoval (fst (run d w before (constructor dflt props, []))) = False
     \<and> confirmDiscardChanges (fst (run d w before (constructor dflt props, []))) = False
     \<and> confirmForcePush (fst (run d w before (constructor dflt props, []))) = False
     \<and> optOutOfUsageTracking (fst (run d w before (constructor dflt props, []))) = False
     \<and> uncommittedChangesStrategyKind (fst (run d w before (constructor dflt props, [])))
       = dflt
     \<and> selectionsEqualProps props
         (fst (run d w after
                (componentWillMount lookupPreferredEmail env props
                   (fst (run d w before (constructor dflt props, []))), [])))"
proof -
  let ?s1 = "fst (run d w before (constructor dflt props, []))"
  let ?s2 = "componentWillMount lookupPreferredEmail env props ?s1"
  have s1: "selectedExternalEditor ?s1 = IPreferencesProps.selectedExternalEditor props"
    "selectedShell ?s1 = IPreferencesProps.selectedShell props"
    "confirmRepositoryRemoval ?s1 = False" "confirmDiscardChanges ?s1 = False"
    "confirmForcePush ?s1 = False" "optOutOfUsageTracking ?s1 = False"
    "uncommittedChangesStrategyKind ?s1 = dflt"
    using run_keeps_selections [OF assms(1), of d w "constructor dflt props" "[]"]
    by (simp_all add: constructor_def)
  have s3: "selectionsEqualProps props (fst (run d w after (?s2, [])))"
    using run_keeps_selections [OF assms(2), of d w ?s2 "[]"] s1(1,2)
    by (simp add: selectionsEqualProps_def componentWillMount_selections)
  from s1 s3 show ?thesis by simp
qed

theorem selections_follow_props_witness:
  "confirmForcePush
     (fst (run (\<lambda>c. c \<in> set ''<>'') (\<lambda>c. c = CHR '' '')
             [TabClicked 2, CommitterNameChanged ''Jane Doe'']
             (constructor 0 example_props, []))) = False
   \<and> selectedShell
     (fst (run (\<lambda>c. c \<in> set ''<>'') (\<lambda>c. c = CHR '' '')
             [TabClicked 2, CommitterNameChanged ''Jane Doe'']
             (constructor 0 example_props, []))) = ''bash''
   \<and> selectionsEqualProps example_props
       (fst (run (\<lambda>c. c \<in> set ''<>'') (\<lambda>c. c = CHR '' '')
               [MergeToolCommandChanged ''kdiff3 --merge'', TabClicked 4, Save]
               (componentWillMount (\<lambda>a. None) example_services example_props
                  (fst (run (\<lambda>c. c \<in> set ''<>'') (\<lambda>c. c = CHR '' '')
                          [TabClicked 2, CommitterNameChanged ''Jane Doe'']
                          (constructor 0 example_props, []))), [])))"
proof -
  have before: "list_all (\<lambda>ev. \<not> editsSelection ev)
      [TabClicked 2, CommitterNameChanged ''Jane Doe'' :: (string, string, nat, string) event]"
    by simp
  have after: "list_all (\<lambda>ev. \<not> editsSelection ev)
      [MergeToolCommandChanged ''kdiff3 --merge'', TabClicked 4,
       Save :: (string, string, nat, string) event]"
    by simp
  show ?thesis
    using selections_follow_props
            [OF before after, where d = "\<lambda>c. c \<in> set ''<>''" and w = "\<lambda>c. c = CHR '' ''"
               and dflt = 0 and props = example_props and env = example_services
               and lookupPreferredEmail = "\<lambda>a. None"]
    by (simp add: example_props_def onTabClicked_def onCommitterNameChanged_def
          onMergeToolCommandChanged_def onSave_def Let_def gitAuthorNameIsValid_def
          constructor_def componentWillMount_def selectionsEqualProps_def)
qed

text \<open>
  C6 as the spec states it fails in the window between construction and load: the host of
  the example passes every flag switched on, and the state just constructed has them off.
\<close>

theorem selections_counterexample:
  "\<not> selectionsEqualProps example_props (constructor 0 example_props)"
  by (simp add: selectionsEqualProps_def constructor_def example_props_def)

end
